theory Spec2Isabelle
  imports Complex_Main "HOL-Library.Sublist"
begin

section \<open>Python values used by the program\<close>

text \<open>
  Conventions of the embedding.
  \<^item> A Python \<open>str\<close> is a \<open>string\<close>; every character is read as a code point below 256.
  \<^item> A Python \<open>int\<close> is an \<open>int\<close>.
  \<^item> A Python \<open>float\<close> is a \<open>real\<close>: arithmetic is exact, there is no NaN and no
    infinity. Division by zero raises, as in Python.
  \<^item> A raised exception is the \<open>Inl\<close> side of a sum.
\<close>

datatype py_error =
    ValueError
  | IndexError
  | ZeroDivisionError
  | CalledProcessError
  | FileNotFoundError
  | TimeoutExpired
  | OSError

subsection \<open>\<open>int(s)\<close> on a string\<close>

text \<open>
  \<open>int(s)\<close> strips surrounding whitespace, accepts one optional sign and then decimal
  digits, where single underscores may separate digits. Anything else raises
  \<open>ValueError\<close>. The interpreter's optional limit on the number of digits is not part of
  the model.
\<close>

definition is_space :: "char \<Rightarrow> bool" where
  "is_space c = ((of_char c :: nat) \<in> {9, 10, 11, 12, 13, 28, 29, 30, 31, 32, 133, 160})"

definition is_digit :: "char \<Rightarrow> bool" where
  "is_digit c = (48 \<le> (of_char c :: nat) \<and> (of_char c :: nat) \<le> 57)"

definition digit_val :: "char \<Rightarrow> int" where
  "digit_val c = int (of_char c) - 48"

definition strip :: "string \<Rightarrow> string" where
  "strip s = rev (dropWhile is_space (rev (dropWhile is_space s)))"

fun py_digits :: "int \<Rightarrow> string \<Rightarrow> int option" where
  "py_digits acc [] = Some acc"
| "py_digits acc [c] = (if is_digit c then Some (10 * acc + digit_val c) else None)"
| "py_digits acc (c # d # ds) =
     (if is_digit c then py_digits (10 * acc + digit_val c) (d # ds)
      else if c = CHR ''_'' \<and> is_digit d then py_digits (10 * acc + digit_val d) ds
      else None)"

definition py_unsigned :: "string \<Rightarrow> int option" where
  "py_unsigned s =
     (case s of
        [] \<Rightarrow> None
      | c # cs \<Rightarrow> if is_digit c then py_digits (digit_val c) cs else None)"

definition py_int :: "string \<Rightarrow> py_error + int" where
  "py_int s =
     (let t = strip s;
          r = (case t of
                 [] \<Rightarrow> None
               | c # cs \<Rightarrow>
                   if c = CHR ''+'' then py_unsigned cs
                   else if c = CHR ''-'' then map_option uminus (py_unsigned cs)
                   else py_unsigned t)
      in case r of None \<Rightarrow> Inl ValueError | Some n \<Rightarrow> Inr n)"

subsection \<open>Float operations\<close>

text \<open>
  \<open>a / b\<close> on floats raises \<open>ZeroDivisionError\<close> when \<open>b\<close> is zero.
\<close>

definition py_truediv :: "real \<Rightarrow> real \<Rightarrow> py_error + real" where
  "py_truediv a b = (if b = 0 then Inl ZeroDivisionError else Inr (a / b))"

text \<open>
  \<open>round(x, ndigits)\<close> returns the multiple of \<open>10 ^ (- ndigits)\<close> nearest to \<open>x\<close>; a
  tie goes to the even multiple.
\<close>

definition round_half_even :: "real \<Rightarrow> int" where
  "round_half_even x =
     (let f = \<lfloor>x\<rfloor>; r = x - of_int f
      in if r < 1 / 2 then f
         else if 1 / 2 < r then f + 1
         else if even f then f else f + 1)"

definition py_round :: "real \<Rightarrow> nat \<Rightarrow> real" where
  "py_round x ndigits = of_int (round_half_even (x * 10 ^ ndigits)) / 10 ^ ndigits"

text \<open>
  \<open>a or b\<close> where \<open>a\<close> is an optional float: \<open>None\<close> and \<open>0.0\<close> are falsy.
\<close>

definition py_or :: "real option \<Rightarrow> real \<Rightarrow> real" where
  "py_or a b = (case a of None \<Rightarrow> b | Some x \<Rightarrow> if x \<noteq> 0 then x else b)"

text \<open>
  An f-string is kept as the list of its pieces: literal text, and the values that are
  formatted into it.
\<close>

datatype fragment = Text string | FloatValue real | SignedInt int

section \<open>Contracts (\<open>models/contracts.py\<close>)\<close>

text \<open>
  Field names that occur in more than one record are written with the record's name
  in front, as in \<open>Phrase.start_ms\<close>.
\<close>

record Phrase =
  start_ms :: real
  end_ms :: real
  bars :: int
  type :: string
  avg_energy :: real

record EnergyPoint =
  ms :: real
  rms :: real

record SongAnalysis =
  filename :: string
  duration_ms :: real
  bpm :: real
  bpm_confidence :: real
  key :: string
  key_confidence :: real
  camelot :: string
  beats_ms :: "real list"
  downbeats_ms :: "real list"
  phrases :: "Phrase list"
  energy_curve :: "EnergyPoint list"
  bpm_warning :: "string option"
  key_warning :: "string option"

datatype bool_or_str = PyBool bool | PyStr string

record Compatibility =
  bpm_diff :: real
  bpm_ratio :: real
  key_compatible :: bool_or_str
  camelot_distance :: int
  camelot_relation :: string
  needs_tempo_adjustment :: bool
  recommended_target_bpm :: real
  harmonic_mixing_score :: real

record ContractA =
  song_a :: SongAnalysis
  song_b :: SongAnalysis
  compatibility :: Compatibility

record SongMixPoint =
  out_point_ms :: "real option"
  in_point_ms :: "real option"
  out_phrase :: "string option"
  in_phrase :: "string option"
  fade_start_ms :: "real option"
  fade_end_ms :: "real option"
  tempo_stretch_factor :: real
  pitch_shift_semitones :: int

record EQAutomationEntry =
  action :: string
  start_ms :: real
  end_ms :: real
  from_db :: real
  to_db :: real
  curve :: string

record EQAutomation =
  song_a_bass :: "EQAutomationEntry option"
  song_b_bass :: "EQAutomationEntry option"
  song_a_highs :: "EQAutomationEntry option"
  song_b_highs :: "EQAutomationEntry option"
  song_a_mids :: "EQAutomationEntry option"
  song_b_mids :: "EQAutomationEntry option"

record Transition =
  total_duration_ms :: real
  crossfade_curve :: string
  eq_automation :: EQAutomation

record SFXConfig =
  enabled :: bool
  type :: string
  trigger_reason :: string
  position_ms :: real
  duration_ms :: real
  source :: string
  elevenlabs_prompt :: string
  fallback_file :: string

record MixDecision =
  strategy :: string
  confidence :: real
  reasoning :: "fragment list"
  song_a :: SongMixPoint
  song_b :: SongMixPoint
  transition :: Transition
  sfx :: SFXConfig
  suggestion :: "string option"

record ContractB =
  mix_decision :: MixDecision

text \<open>The field defaults of the models.\<close>

definition SongMixPoint_defaults :: SongMixPoint where
  "SongMixPoint_defaults =
     \<lparr>out_point_ms = None, in_point_ms = None, out_phrase = None, in_phrase = None,
      fade_start_ms = None, fade_end_ms = None, tempo_stretch_factor = 1,
      pitch_shift_semitones = 0\<rparr>"

definition EQAutomation_defaults :: EQAutomation where
  "EQAutomation_defaults =
     \<lparr>song_a_bass = None, song_b_bass = None, song_a_highs = None, song_b_highs = None,
      song_a_mids = None, song_b_mids = None\<rparr>"

definition SFXConfig_defaults :: SFXConfig where
  "SFXConfig_defaults =
     \<lparr>enabled = False, type = ''none'', trigger_reason = '''', position_ms = 0,
      duration_ms = 4000, source = ''library'', elevenlabs_prompt = '''',
      fallback_file = ''''\<rparr>"

section \<open>Camelot wheel (\<open>analysis/camelot.py\<close>)\<close>

definition KEY_TO_CAMELOT :: "(string \<times> string) list" where
  "KEY_TO_CAMELOT =
    [(''C major'', ''8B''), (''Db major'', ''3B''), (''D major'', ''10B''), (''Eb major'', ''5B''),
     (''E major'', ''12B''), (''F major'', ''7B''), (''F# major'', ''2B''), (''Gb major'', ''2B''),
     (''G major'', ''9B''), (''Ab major'', ''4B''), (''A major'', ''11B''), (''Bb major'', ''6B''),
     (''B major'', ''1B''),
     (''C minor'', ''5A''), (''C# minor'', ''12A''), (''Db minor'', ''12A''), (''D minor'', ''7A''),
     (''Eb minor'', ''2A''), (''E minor'', ''9A''), (''F minor'', ''4A''), (''F# minor'', ''11A''),
     (''Gb minor'', ''11A''), (''G minor'', ''6A''), (''G# minor'', ''1A''), (''Ab minor'', ''1A''),
     (''A minor'', ''8A''), (''Bb minor'', ''3A''), (''B minor'', ''10A''),
     (''C'', ''8B''), (''Cm'', ''5A''), (''C#'', ''3B''), (''C#m'', ''12A''),
     (''Db'', ''3B''), (''Dbm'', ''12A''), (''D'', ''10B''), (''Dm'', ''7A''),
     (''D#'', ''5B''), (''D#m'', ''2A''), (''Eb'', ''5B''), (''Ebm'', ''2A''),
     (''E'', ''12B''), (''Em'', ''9A''), (''F'', ''7B''), (''Fm'', ''4A''),
     (''F#'', ''2B''), (''F#m'', ''11A''), (''Gb'', ''2B''), (''Gbm'', ''11A''),
     (''G'', ''9B''), (''Gm'', ''6A''), (''G#'', ''4B''), (''G#m'', ''1A''),
     (''Ab'', ''4B''), (''Abm'', ''1A''), (''A'', ''11B''), (''Am'', ''8A''),
     (''A#'', ''6B''), (''A#m'', ''3A''), (''Bb'', ''6B''), (''Bbm'', ''3A''),
     (''B'', ''1B''), (''Bm'', ''10A'')]"

definition key_to_camelot :: "string \<Rightarrow> string" where
  "key_to_camelot k = (case map_of KEY_TO_CAMELOT k of None \<Rightarrow> ''?'' | Some c \<Rightarrow> c)"

text \<open>
  The two assignments inside the \<open>try\<close> of \<open>camelot_distance\<close>, for one code:
  \<open>int(cam[:-1])\<close> is evaluated first, then \<open>cam[-1]\<close>.
\<close>

definition split_code :: "string \<Rightarrow> py_error + (int \<times> char)" where
  "split_code cam =
     (case py_int (butlast cam) of
        Inl e \<Rightarrow> Inl e
      | Inr num \<Rightarrow> if cam = [] then Inl IndexError else Inr (num, last cam))"

definition camelot_distance :: "string \<Rightarrow> string \<Rightarrow> int" where
  "camelot_distance cam_a cam_b =
     (if cam_a = ''?'' \<or> cam_b = ''?'' then - 1
      else
        case split_code cam_a of
          Inl e \<Rightarrow> - 1
        | Inr (num_a, letter_a) \<Rightarrow>
            (case split_code cam_b of
               Inl e \<Rightarrow> - 1
             | Inr (num_b, letter_b) \<Rightarrow>
                 if letter_a = letter_b then
                   (let diff = \<bar>num_a - num_b\<bar> in min diff (12 - diff))
                 else if num_a = num_b then 0
                 else (let diff = \<bar>num_a - num_b\<bar> in min diff (12 - diff) + 1)))"

definition camelot_relation :: "string \<Rightarrow> string \<Rightarrow> string" where
  "camelot_relation cam_a cam_b =
     (let dist = camelot_distance cam_a cam_b
      in if dist < 0 then ''unknown''
         else if dist = 0 then ''same''
         else if dist = 1 then ''adjacent''
         else if dist = 2 then ''relative''
         else ''incompatible'')"

definition scores :: "(int \<times> real) list" where
  "scores = [(0, 1), (1, 85 / 100), (2, 6 / 10), (3, 4 / 10), (4, 2 / 10), (5, 1 / 10), (6, 5 / 100)]"

definition harmonic_score :: "string \<Rightarrow> string \<Rightarrow> real" where
  "harmonic_score cam_a cam_b =
     (let dist = camelot_distance cam_a cam_b
      in if dist < 0 then 1 / 2
         else case map_of scores dist of None \<Rightarrow> 5 / 100 | Some s \<Rightarrow> s)"

definition CAMELOT_TO_PITCH :: "(string \<times> int) list" where
  "CAMELOT_TO_PITCH =
    [(''1A'', 8), (''2A'', 3), (''3A'', 10), (''4A'', 5), (''5A'', 0), (''6A'', 7),
     (''7A'', 2), (''8A'', 9), (''9A'', 4), (''10A'', 11), (''11A'', 6), (''12A'', 1),
     (''1B'', 11), (''2B'', 6), (''3B'', 1), (''4B'', 8), (''5B'', 3), (''6B'', 10),
     (''7B'', 5), (''8B'', 0), (''9B'', 7), (''10B'', 2), (''11B'', 9), (''12B'', 4)]"

definition pitch_shift_to_match :: "string \<Rightarrow> string \<Rightarrow> int" where
  "pitch_shift_to_match cam_source cam_target =
     (if camelot_distance cam_source cam_target \<le> 1 then 0
      else
        case (map_of CAMELOT_TO_PITCH cam_source, map_of CAMELOT_TO_PITCH cam_target) of
          (Some pitch_src, Some pitch_tgt) \<Rightarrow>
            (let diff = (pitch_tgt - pitch_src) mod 12
             in if diff > 6 then diff - 12 else diff)
        | _ \<Rightarrow> 0)"

subsection \<open>The distance rule in the specification's words\<close>

text \<open>
  A wheel code is a number 1 to 12 with a ring letter A or B, or the unknown sentinel.
  \<open>wheelDistance_spec\<close> follows the rule of the specification and is compared below with
  \<open>camelot_distance\<close>, which follows the source. \<open>label\<close> writes a code the way the
  tables of the source write it.
\<close>

datatype ring = RingA | RingB

datatype wheel_code = Unknown | Code nat ring

definition circular_distance :: "nat \<Rightarrow> nat \<Rightarrow> int" where
  "circular_distance numA numB = min \<bar>int numA - int numB\<bar> (12 - \<bar>int numA - int numB\<bar>)"

fun wheelDistance_spec :: "wheel_code \<Rightarrow> wheel_code \<Rightarrow> int option" where
  "wheelDistance_spec Unknown b = None"
| "wheelDistance_spec a Unknown = None"
| "wheelDistance_spec (Code numA ringA) (Code numB ringB) =
     (if ringA = ringB then Some (circular_distance numA numB)
      else if numA = numB then Some 0
      else Some (circular_distance numA numB + 1))"

fun valid_code :: "wheel_code \<Rightarrow> bool" where
  "valid_code Unknown = True"
| "valid_code (Code n r) = (1 \<le> n \<and> n \<le> 12)"

definition digit_char :: "nat \<Rightarrow> char" where
  "digit_char d = ''0123456789'' ! d"

definition show_num :: "nat \<Rightarrow> string" where
  "show_num n = (if n < 10 then [digit_char n] else [digit_char (n div 10), digit_char (n mod 10)])"

fun ring_letter :: "ring \<Rightarrow> char" where
  "ring_letter RingA = CHR ''A''"
| "ring_letter RingB = CHR ''B''"

fun label :: "wheel_code \<Rightarrow> string" where
  "label Unknown = ''?''"
| "label (Code n r) = show_num n @ [ring_letter r]"

definition wheel_numbers :: "nat list" where
  "wheel_numbers = [1, 2, 3, 4, 5, 6, 7, 8, 9, 10, 11, 12]"



section \<open>Compatibility (\<open>analysis/engine.py\<close>)\<close>

definition compute_compatibility :: "SongAnalysis \<Rightarrow> SongAnalysis \<Rightarrow> Compatibility" where
  "compute_compatibility sa sb =
     (let diff = \<bar>bpm sa - bpm sb\<bar>;
          ratio = (if min (bpm sa) (bpm sb) > 0
                   then max (bpm sa) (bpm sb) / min (bpm sa) (bpm sb) else 1);
          cam_dist = camelot_distance (camelot sa) (camelot sb);
          cam_rel = camelot_relation (camelot sa) (camelot sb);
          harm_score = harmonic_score (camelot sa) (camelot sb);
          key_compat = (if key_confidence sa < 1 / 2 \<or> key_confidence sb < 1 / 2
                        then PyStr ''unknown'' else PyBool (cam_dist \<le> 1));
          needs_tempo_adj = (diff > 2);
          target_bpm = py_round ((bpm sa + bpm sb) / 2) 1
      in \<lparr>bpm_diff = py_round diff 1,
          bpm_ratio = py_round ratio 3,
          key_compatible = key_compat,
          Compatibility.camelot_distance = cam_dist,
          Compatibility.camelot_relation = cam_rel,
          needs_tempo_adjustment = needs_tempo_adj,
          recommended_target_bpm = target_bpm,
          harmonic_mixing_score = py_round harm_score 2\<rparr>)"

text \<open>
  The last two lines of \<open>analyze_pair\<close>: the contract built from two analyses.
\<close>

definition analyze_pair :: "SongAnalysis \<Rightarrow> SongAnalysis \<Rightarrow> ContractA" where
  "analyze_pair sa sb =
     \<lparr>ContractA.song_a = sa, ContractA.song_b = sb,
      compatibility = compute_compatibility sa sb\<rparr>"

section \<open>Rule-based mixer (\<open>strategist/fallback.py\<close>)\<close>

text \<open>
  \<open>min(xs, key=f)\<close> keeps the first element whose key is smallest: the running best is
  replaced only by a strictly smaller key.
\<close>

fun min_by :: "('a \<Rightarrow> real) \<Rightarrow> 'a \<Rightarrow> 'a list \<Rightarrow> 'a" where
  "min_by f best [] = best"
| "min_by f best (x # xs) = min_by f (if f x < f best then x else best) xs"

definition nearest_downbeat :: "real list \<Rightarrow> real \<Rightarrow> real" where
  "nearest_downbeat ds target_ms =
     (case ds of [] \<Rightarrow> target_ms | d # rest \<Rightarrow> min_by (\<lambda>d. \<bar>d - target_ms\<bar>) d rest)"

fun phrase_at :: "Phrase list \<Rightarrow> real \<Rightarrow> string" where
  "phrase_at [] t = ''unknown''"
| "phrase_at (p # ps) t =
     (if Phrase.start_ms p \<le> t \<and> t \<le> Phrase.end_ms p then Phrase.type p else phrase_at ps t)"

text \<open>The loop over the phrases of song B that picks the default in-point.\<close>

fun first_suitable_phrase :: "Phrase list \<Rightarrow> real" where
  "first_suitable_phrase [] = 0"
| "first_suitable_phrase (p # ps) =
     (if Phrase.type p \<in> {''intro'', ''verse'', ''breakdown''} then Phrase.start_ms p
      else first_suitable_phrase ps)"

text \<open>
  The local variables of \<open>rule_based_mix\<close>, each as a function of the arguments.
\<close>

definition out_point :: "ContractA \<Rightarrow> real option \<Rightarrow> real" where
  "out_point c transition_start_ms =
     (let sa = ContractA.song_a c
      in case transition_start_ms of
           Some t \<Rightarrow> nearest_downbeat (downbeats_ms sa) t
         | None \<Rightarrow> nearest_downbeat (downbeats_ms sa) (SongAnalysis.duration_ms sa * (75 / 100)))"

definition in_point :: "ContractA \<Rightarrow> real option \<Rightarrow> real" where
  "in_point c song_b_in_point_ms =
     (let sb = ContractA.song_b c
      in case song_b_in_point_ms of
           Some t \<Rightarrow> nearest_downbeat (downbeats_ms sb) t
         | None \<Rightarrow> first_suitable_phrase (phrases sb))"

definition transition_duration :: "ContractA \<Rightarrow> real option \<Rightarrow> py_error + real" where
  "transition_duration c transition_start_ms =
     (let sa = ContractA.song_a c;
          target_bpm = recommended_target_bpm (compatibility c)
      in case py_truediv (4 * 60000) target_bpm of
           Inl e \<Rightarrow> Inl e
         | Inr ms_per_bar \<Rightarrow>
             (let d = ms_per_bar * 8
              in if out_point c transition_start_ms + d > SongAnalysis.duration_ms sa
                 then Inr (SongAnalysis.duration_ms sa - out_point c transition_start_ms)
                 else Inr d))"

definition stretch_factors :: "ContractA \<Rightarrow> py_error + real \<times> real" where
  "stretch_factors c =
     (let target_bpm = recommended_target_bpm (compatibility c)
      in if needs_tempo_adjustment (compatibility c) then
           (case py_truediv target_bpm (bpm (ContractA.song_a c)) of
              Inl e \<Rightarrow> Inl e
            | Inr stretch_a \<Rightarrow>
                (case py_truediv target_bpm (bpm (ContractA.song_b c)) of
                   Inl e \<Rightarrow> Inl e
                 | Inr stretch_b \<Rightarrow> Inr (stretch_a, stretch_b)))
         else Inr (1, 1))"

definition pitch_shift_b :: "ContractA \<Rightarrow> bool \<Rightarrow> int" where
  "pitch_shift_b c mix_in_key =
     (if mix_in_key \<and> key_compatible (compatibility c) \<noteq> PyBool True
         \<and> key_compatible (compatibility c) \<noteq> PyStr ''unknown''
      then pitch_shift_to_match (camelot (ContractA.song_b c)) (camelot (ContractA.song_a c))
      else 0)"

definition key_note :: "int \<Rightarrow> fragment list" where
  "key_note shift =
     (if shift \<noteq> 0
      then [Text '' Song B pitch-shifted by '', SignedInt shift,
            Text '' semitones for key compatibility.'']
      else [])"

definition bass_swap_eq :: "real \<Rightarrow> real \<Rightarrow> EQAutomation" where
  "bass_swap_eq out d =
     EQAutomation_defaults
       \<lparr>song_a_bass :=
          Some \<lparr>action = ''cut'', start_ms = out, end_ms = out + d / 2,
                from_db = 0, to_db = - 24, curve = ''linear''\<rparr>,
        song_b_bass :=
          Some \<lparr>action = ''boost'', start_ms = d / 2, end_ms = d,
                from_db = - 24, to_db = 0, curve = ''linear''\<rparr>\<rparr>"

definition rule_based_mix ::
  "ContractA \<Rightarrow> real option \<Rightarrow> bool \<Rightarrow> real option \<Rightarrow> py_error + ContractB" where
  "rule_based_mix c transition_start_ms mix_in_key song_b_in_point_ms =
     (let sa = ContractA.song_a c;
          sb = ContractA.song_b c;
          compat = compatibility c;
          out = out_point c transition_start_ms;
          inp = in_point c song_b_in_point_ms;
          target_bpm = recommended_target_bpm compat
      in case transition_duration c transition_start_ms of
           Inl e \<Rightarrow> Inl e
         | Inr d \<Rightarrow>
             (case stretch_factors c of
                Inl e \<Rightarrow> Inl e
              | Inr (stretch_a, stretch_b) \<Rightarrow>
                  (let shift = pitch_shift_b c mix_in_key
                   in Inr \<lparr>mix_decision =
                        \<lparr>strategy = ''bass_swap'',
                         confidence = 1 / 2,
                         reasoning =
                           [Text ''Rule-based fallback (AI unavailable). '',
                            Text ''8-bar linear crossfade with bass swap. '',
                            Text ''BPM difference: '', FloatValue (bpm_diff compat), Text ''. '',
                            Text ''Target BPM: '', FloatValue target_bpm, Text ''. '',
                            Text ''Key compatibility: '',
                            Text (Compatibility.camelot_relation compat), Text ''.'']
                           @ key_note shift,
                         MixDecision.song_a =
                           SongMixPoint_defaults
                             \<lparr>out_point_ms := Some (py_round out 1),
                              out_phrase := Some (phrase_at (phrases sa) out),
                              fade_start_ms := Some (py_round out 1),
                              tempo_stretch_factor := py_round stretch_a 4\<rparr>,
                         MixDecision.song_b =
                           SongMixPoint_defaults
                             \<lparr>in_point_ms := Some (py_round inp 1),
                              in_phrase := Some (phrase_at (phrases sb) inp),
                              fade_end_ms := Some (py_round (inp + d) 1),
                              tempo_stretch_factor := py_round stretch_b 4,
                              pitch_shift_semitones := shift\<rparr>,
                         transition =
                           \<lparr>total_duration_ms = py_round d 1,
                            crossfade_curve = ''linear'',
                            eq_automation = bass_swap_eq out d\<rparr>,
                         sfx = SFXConfig_defaults \<lparr>enabled := False\<rparr>,
                         suggestion = None\<rparr>\<rparr>)))"

subsection \<open>Concrete analyses\<close>

text \<open>
  A song analysis with a given duration, tempo, Camelot code and downbeats, used by the
  concrete instances below. The remaining fields are those of a detected A minor song
  without phrases.
\<close>

definition example_song :: "real \<Rightarrow> real \<Rightarrow> string \<Rightarrow> real list \<Rightarrow> SongAnalysis" where
  "example_song dur tempo code downbeats =
     \<lparr>filename = ''song.mp3'', SongAnalysis.duration_ms = dur, bpm = tempo,
      bpm_confidence = 9 / 10, key = ''Am'', key_confidence = 8 / 10, camelot = code,
      beats_ms = downbeats, downbeats_ms = downbeats, phrases = [], energy_curve = [],
      bpm_warning = None, key_warning = None\<rparr>"

section \<open>Renderer (\<open>renderer/engine.py\<close>)\<close>

subsection \<open>External commands and their outcomes\<close>

text \<open>
  The renderer acts through external programs. Every call of \<open>subprocess.run\<close>,
  \<open>shutil.copy2\<close> and \<open>shutil.rmtree\<close> is a \<open>command\<close> that carries the arguments the
  source computes; a number written into a command line with \<open>:.3f\<close> or \<open>:.4f\<close> is the
  number rounded to that many decimals. An \<open>equalizer\<close> filter is kept as its parts:
  centre frequency, width, start gain, gain difference, window start, window length and
  window end.
\<close>

type_synonym path = string

datatype eq_filter = Equalizer int int real real real real real

datatype command =
    Copy2 path path
  | Ffmpeg_convert path path
  | Ffmpeg_extract path real "real option" path
  | Ffmpeg_af path "eq_filter list" path
  | Rubberband_tempo real path path
  | Ffmpeg_atempo path "real list" path
  | Rubberband_pitch int path path
  | Ffmpeg_asetrate path int path
  | Ffprobe_duration path
  | Ffmpeg_acrossfade path path real string path
  | Ffmpeg_amix path path int path
  | Ffmpeg_loudnorm_mp3 path path
  | Ffmpeg_loudnorm_wav path path
  | Rmtree path

text \<open>
  What lies outside the program is a parameter of the model: whether a command raises
  (\<open>run\<close>; for \<open>Ffprobe_duration\<close> this includes a failure to read the printed number),
  what the SFX provider finds once an effect is requested (\<open>sfx_lookup\<close>), whether a
  path has the suffix \<open>.wav\<close> in any letter case (\<open>is_wav\<close>), and the configured
  \<open>OUTPUT_DIR\<close>.
\<close>

record environment =
  run :: "command \<Rightarrow> py_error option"
  sfx_lookup :: "SFXConfig \<Rightarrow> path \<Rightarrow> py_error + path option"
  is_wav :: "path \<Rightarrow> bool"
  OUTPUT_DIR :: path

text \<open>
  A computation ends by returning a value, by raising, or not at all; it leaves the
  list of the commands it has issued.
\<close>

datatype 'a outcome = Returned 'a | Raised py_error | Diverged

type_synonym 'a io = "'a outcome \<times> command list"

definition io_return :: "'a \<Rightarrow> 'a io" where
  "io_return x = (Returned x, [])"

definition io_raise :: "py_error \<Rightarrow> 'a io" where
  "io_raise e = (Raised e, [])"

definition io_bind :: "'a io \<Rightarrow> ('a \<Rightarrow> 'b io) \<Rightarrow> 'b io" where
  "io_bind m f =
     (case m of
        (Returned x, t) \<Rightarrow> (case f x of (r, t') \<Rightarrow> (r, t @ t'))
      | (Raised e, t) \<Rightarrow> (Raised e, t)
      | (Diverged, t) \<Rightarrow> (Diverged, t))"

text \<open>\<open>try: m  except (the errors in handled): h\<close>\<close>

definition io_catch :: "'a io \<Rightarrow> (py_error \<Rightarrow> bool) \<Rightarrow> 'a io \<Rightarrow> 'a io" where
  "io_catch m handled h =
     (case m of
        (Raised e, t) \<Rightarrow> if handled e then (case h of (r, t') \<Rightarrow> (r, t @ t')) else (Raised e, t)
      | (r, t) \<Rightarrow> (r, t))"

text \<open>\<open>try: m  finally: c\<close>, for a command \<open>c\<close> that cannot raise.\<close>

definition io_finally :: "'a io \<Rightarrow> command \<Rightarrow> 'a io" where
  "io_finally m c = (case m of (Diverged, t) \<Rightarrow> (Diverged, t) | (r, t) \<Rightarrow> (r, t @ [c]))"

definition run_command :: "environment \<Rightarrow> command \<Rightarrow> path \<Rightarrow> path io" where
  "run_command env c result =
     (case run env c of None \<Rightarrow> (Returned result, [c]) | Some e \<Rightarrow> (Raised e, [c]))"

definition path_join :: "path \<Rightarrow> string \<Rightarrow> path" where
  "path_join d name = d @ ''/'' @ name"

text \<open>\<open>int(x)\<close> on a float truncates towards zero.\<close>

definition py_trunc :: "real \<Rightarrow> int" where
  "py_trunc x = (if 0 \<le> x then \<lfloor>x\<rfloor> else \<lceil>x\<rceil>)"

subsection \<open>The helpers\<close>

definition ensure_wav_command :: "environment \<Rightarrow> path \<Rightarrow> path \<Rightarrow> command" where
  "ensure_wav_command env input_path output_path =
     (if is_wav env input_path then Copy2 input_path output_path
      else Ffmpeg_convert input_path output_path)"

definition ensure_wav :: "environment \<Rightarrow> path \<Rightarrow> path \<Rightarrow> path io" where
  "ensure_wav env input_path output_path =
     run_command env (ensure_wav_command env input_path output_path) output_path"

definition subprocess_errors :: "py_error \<Rightarrow> bool" where
  "subprocess_errors e \<longleftrightarrow> e = CalledProcessError \<or> e = FileNotFoundError"

definition pitch_shift :: "environment \<Rightarrow> path \<Rightarrow> int \<Rightarrow> path \<Rightarrow> path io" where
  "pitch_shift env input_wav semitones output_path =
     io_catch (run_command env (Rubberband_pitch semitones input_wav output_path) output_path)
       subprocess_errors
       (let factor = 2 powr (of_int semitones / 12);
            new_rate = py_trunc (44100 * factor)
        in run_command env (Ffmpeg_asetrate input_wav new_rate output_path) output_path)"

text \<open>The two \<open>while\<close> loops that build the \<open>atempo\<close> chain.\<close>

partial_function (option) atempo_halving :: "real \<Rightarrow> real list \<Rightarrow> (real \<times> real list) option" where
  "atempo_halving atempo_val chain =
     (if atempo_val > 2 then atempo_halving (atempo_val / 2) (chain @ [2])
      else Some (atempo_val, chain))"

partial_function (option) atempo_doubling :: "real \<Rightarrow> real list \<Rightarrow> (real \<times> real list) option" where
  "atempo_doubling atempo_val chain =
     (if atempo_val < 1 / 2 then atempo_doubling (atempo_val * 2) (chain @ [1 / 2])
      else Some (atempo_val, chain))"

definition atempo_chain :: "real \<Rightarrow> real list option" where
  "atempo_chain factor =
     (case atempo_halving factor [] of
        None \<Rightarrow> None
      | Some (v, chain) \<Rightarrow>
          (case atempo_doubling v chain of
             None \<Rightarrow> None
           | Some (v', chain') \<Rightarrow> Some (chain' @ [py_round v' 4])))"

definition rb_time_ratio :: "real \<Rightarrow> py_error + real" where
  "rb_time_ratio factor = py_truediv 1 factor"

definition time_stretch :: "environment \<Rightarrow> path \<Rightarrow> real \<Rightarrow> path \<Rightarrow> path io" where
  "time_stretch env input_wav factor output_path =
     (case rb_time_ratio factor of
        Inl e \<Rightarrow> io_raise e
      | Inr ratio \<Rightarrow>
          io_catch (run_command env (Rubberband_tempo ratio input_wav output_path) output_path)
            subprocess_errors
            (case atempo_chain factor of
               None \<Rightarrow> (Diverged, [])
             | Some chain \<Rightarrow>
                 run_command env (Ffmpeg_atempo input_wav chain output_path) output_path))"

definition extract_segment ::
  "environment \<Rightarrow> path \<Rightarrow> real \<Rightarrow> real option \<Rightarrow> path \<Rightarrow> path io" where
  "extract_segment env input_wav start end output_path =
     run_command env
       (Ffmpeg_extract input_wav (py_round (start / 1000) 3)
          (case end of None \<Rightarrow> None | Some e \<Rightarrow> Some (py_round ((e - start) / 1000) 3))
          output_path)
       output_path"

definition eq_filter_for_band :: "EQAutomationEntry \<Rightarrow> string \<Rightarrow> real \<Rightarrow> eq_filter option" where
  "eq_filter_for_band entry band offset_ms =
     (let start_s0 = (EQAutomationEntry.start_ms entry - offset_ms) / 1000;
          end_s = (EQAutomationEntry.end_ms entry - offset_ms) / 1000;
          start_s = (if start_s0 < 0 then 0 else start_s0);
          dur_s = end_s - start_s
      in if dur_s \<le> 0 then None
         else
           (case (if band = ''bass'' then Some (100, 120)
                  else if band = ''highs'' then Some (8000, 4000)
                  else if band = ''mids'' then Some (1000, 2000)
                  else None) of
              None \<Rightarrow> None
            | Some (freq, width) \<Rightarrow>
                Some (Equalizer freq width (from_db entry) (to_db entry - from_db entry)
                        (py_round start_s 3) (py_round dur_s 3) (py_round end_s 3))))"

text \<open>
  \<open>getattr(eq_auto, f"song_{song_id}_{band}", None)\<close> for the three bands.
\<close>

definition eq_entry :: "EQAutomation \<Rightarrow> string \<Rightarrow> string \<Rightarrow> EQAutomationEntry option" where
  "eq_entry eq_auto song_id band =
     (if song_id = ''a'' \<and> band = ''bass'' then song_a_bass eq_auto
      else if song_id = ''a'' \<and> band = ''highs'' then song_a_highs eq_auto
      else if song_id = ''a'' \<and> band = ''mids'' then song_a_mids eq_auto
      else if song_id = ''b'' \<and> band = ''bass'' then song_b_bass eq_auto
      else if song_id = ''b'' \<and> band = ''highs'' then song_b_highs eq_auto
      else if song_id = ''b'' \<and> band = ''mids'' then song_b_mids eq_auto
      else None)"

definition eq_filters :: "EQAutomation \<Rightarrow> string \<Rightarrow> real \<Rightarrow> eq_filter list" where
  "eq_filters eq_auto song_id time_offset_ms =
     List.map_filter
       (\<lambda>band. case eq_entry eq_auto song_id band of
                 None \<Rightarrow> None
               | Some entry \<Rightarrow> eq_filter_for_band entry band time_offset_ms)
       [''bass'', ''highs'', ''mids'']"

definition apply_eq_automation ::
  "environment \<Rightarrow> path \<Rightarrow> EQAutomation \<Rightarrow> string \<Rightarrow> real \<Rightarrow> path \<Rightarrow> path io" where
  "apply_eq_automation env wav_path eq_auto song_id time_offset_ms work_dir =
     (let filters = eq_filters eq_auto song_id time_offset_ms
      in if filters = [] then io_return wav_path
         else
           (let output = path_join work_dir (''eq_'' @ song_id @ ''.wav'')
            in run_command env (Ffmpeg_af wav_path filters output) output))"

definition crossfade ::
  "environment \<Rightarrow> path \<Rightarrow> path \<Rightarrow> real \<Rightarrow> real \<Rightarrow> string \<Rightarrow> path \<Rightarrow> path io" where
  "crossfade env seg_a seg_b crossfade_start_in_a crossfade_duration curve_name work_dir =
     (let output = path_join work_dir ''crossfaded.wav'';
          dur_sec = crossfade_duration / 1000;
          curve_type = (if curve_name = ''equal_power'' then ''esin''
                        else if curve_name = ''exponential'' then ''exp'' else ''tri'')
      in io_bind (run_command env (Ffprobe_duration seg_a) seg_a)
           (\<lambda>_. run_command env
                   (Ffmpeg_acrossfade seg_a seg_b (py_round dur_sec 3) curve_type output) output))"

definition get_sfx_audio :: "environment \<Rightarrow> SFXConfig \<Rightarrow> path \<Rightarrow> (path option) io" where
  "get_sfx_audio env sfx_config work_dir =
     (if \<not> enabled sfx_config \<or> SFXConfig.type sfx_config = ''none'' then io_return None
      else case sfx_lookup env sfx_config work_dir of
             Inl e \<Rightarrow> io_raise e
           | Inr found \<Rightarrow> io_return found)"

definition overlay_sfx :: "environment \<Rightarrow> path \<Rightarrow> MixDecision \<Rightarrow> real \<Rightarrow> path \<Rightarrow> path io" where
  "overlay_sfx env mixed_path md fade_start work_dir =
     io_bind (get_sfx_audio env (sfx md) work_dir)
       (\<lambda>found. case found of
           None \<Rightarrow> io_return mixed_path
         | Some sfx_path \<Rightarrow>
             (let output = path_join work_dir ''with_sfx.wav''
              in run_command env
                   (Ffmpeg_amix mixed_path sfx_path (py_trunc (position_ms (sfx md))) output)
                   output))"

definition normalize_and_export :: "environment \<Rightarrow> path \<Rightarrow> path \<Rightarrow> path \<Rightarrow> path io" where
  "normalize_and_export env wav_path output_mp3 output_wav =
     io_bind (run_command env (Ffmpeg_loudnorm_mp3 wav_path output_mp3) output_mp3)
       (\<lambda>_. run_command env (Ffmpeg_loudnorm_wav wav_path output_wav) output_mp3)"

subsection \<open>\<open>render_mix\<close> and \<open>_simplified_render\<close>\<close>

text \<open>The local variables of \<open>render_mix\<close> that place the transition.\<close>

definition fade_start :: "MixDecision \<Rightarrow> real" where
  "fade_start md =
     py_or (fade_start_ms (MixDecision.song_a md)) (py_or (out_point_ms (MixDecision.song_a md)) 0)"

definition orig_trans_dur_a :: "MixDecision \<Rightarrow> real" where
  "orig_trans_dur_a md =
     (let trans_dur = total_duration_ms (transition md);
          sa_sf = tempo_stretch_factor (MixDecision.song_a md)
      in if sa_sf \<noteq> 1 then trans_dur * sa_sf else trans_dur)"

definition seg_a_end_ms :: "MixDecision \<Rightarrow> real" where
  "seg_a_end_ms md = fade_start md + orig_trans_dur_a md"

definition crossfade_start_in_a :: "MixDecision \<Rightarrow> real" where
  "crossfade_start_in_a md =
     (let sa_sf = tempo_stretch_factor (MixDecision.song_a md)
      in if sa_sf \<noteq> 1 then fade_start md * sa_sf else fade_start md)"

definition output_mp3 :: "environment \<Rightarrow> string \<Rightarrow> path" where
  "output_mp3 env session_id = path_join (OUTPUT_DIR env) (session_id @ ''_mix.mp3'')"

definition output_wav :: "environment \<Rightarrow> string \<Rightarrow> path" where
  "output_wav env session_id = path_join (OUTPUT_DIR env) (session_id @ ''_mix.wav'')"

text \<open>The body of the \<open>try\<close> block of \<open>render_mix\<close>.\<close>

definition primary_render ::
  "environment \<Rightarrow> ContractB \<Rightarrow> path \<Rightarrow> path \<Rightarrow> string \<Rightarrow> path \<Rightarrow> path io" where
  "primary_render env contract_b song_a_path song_b_path session_id work_dir =
     (let md = mix_decision contract_b;
          in_point = py_or (in_point_ms (MixDecision.song_b md)) 0;
          trans_dur = total_duration_ms (transition md);
          sa_sf = tempo_stretch_factor (MixDecision.song_a md);
          sb_sf = tempo_stretch_factor (MixDecision.song_b md);
          eq_auto = eq_automation (transition md)
      in
      io_bind (ensure_wav env song_a_path (path_join work_dir ''a_full.wav'')) (\<lambda>wav_a.
      io_bind (ensure_wav env song_b_path (path_join work_dir ''b_full.wav'')) (\<lambda>wav_b.
      io_bind (extract_segment env wav_a 0 (Some (seg_a_end_ms md))
                 (path_join work_dir ''seg_a.wav'')) (\<lambda>seg_a0.
      io_bind (extract_segment env wav_b in_point None (path_join work_dir ''seg_b.wav'')) (\<lambda>seg_b0.
      io_bind (apply_eq_automation env seg_a0 eq_auto ''a'' 0 work_dir) (\<lambda>seg_a1.
      io_bind (apply_eq_automation env seg_b0 eq_auto ''b'' 0 work_dir) (\<lambda>seg_b1.
      io_bind (if sa_sf \<noteq> 1
               then time_stretch env seg_a1 sa_sf (path_join work_dir ''a_stretched.wav'')
               else io_return seg_a1) (\<lambda>seg_a2.
      io_bind (if sb_sf \<noteq> 1
               then time_stretch env seg_b1 sb_sf (path_join work_dir ''b_stretched.wav'')
               else io_return seg_b1) (\<lambda>seg_b2.
      io_bind (if pitch_shift_semitones (MixDecision.song_a md) \<noteq> 0
               then pitch_shift env seg_a2 (pitch_shift_semitones (MixDecision.song_a md))
                      (path_join work_dir ''a_pitched.wav'')
               else io_return seg_a2) (\<lambda>seg_a3.
      io_bind (if pitch_shift_semitones (MixDecision.song_b md) \<noteq> 0
               then pitch_shift env seg_b2 (pitch_shift_semitones (MixDecision.song_b md))
                      (path_join work_dir ''b_pitched.wav'')
               else io_return seg_b2) (\<lambda>seg_b3.
      io_bind (crossfade env seg_a3 seg_b3 (crossfade_start_in_a md) trans_dur
                 (crossfade_curve (transition md)) work_dir) (\<lambda>mixed0.
      io_bind (if enabled (sfx md) then overlay_sfx env mixed0 md (fade_start md) work_dir
               else io_return mixed0) (\<lambda>mixed.
      normalize_and_export env mixed (output_mp3 env session_id)
        (output_wav env session_id))))))))))))))"

definition simplified_render ::
  "environment \<Rightarrow> path \<Rightarrow> path \<Rightarrow> ContractB \<Rightarrow> string \<Rightarrow> path \<Rightarrow> path io" where
  "simplified_render env song_a_path song_b_path contract_b session_id work_dir =
     (let md = mix_decision contract_b;
          in_point = py_or (in_point_ms (MixDecision.song_b md)) 0;
          dur_sec = total_duration_ms (transition md) / 1000;
          crossfaded = path_join work_dir ''simple_crossfaded.wav''
      in
      io_bind (ensure_wav env song_a_path (path_join work_dir ''simple_a.wav'')) (\<lambda>wav_a.
      io_bind (ensure_wav env song_b_path (path_join work_dir ''simple_b.wav'')) (\<lambda>wav_b0.
      io_bind (if in_point > 0
               then extract_segment env wav_b0 in_point None
                      (path_join work_dir ''simple_b_seg.wav'')
               else io_return wav_b0) (\<lambda>wav_b.
      io_bind (run_command env
                 (Ffmpeg_acrossfade wav_a wav_b (py_round dur_sec 3) ''tri'' crossfaded)
                 crossfaded) (\<lambda>_.
      run_command env (Ffmpeg_loudnorm_mp3 crossfaded (output_mp3 env session_id))
        (output_mp3 env session_id))))))"

text \<open>
  \<open>render_mix\<close> after the working directory has been created: the \<open>try\<close> block, the
  handler for every \<open>Exception\<close>, and the \<open>finally\<close> clause.
\<close>

definition render_mix ::
  "environment \<Rightarrow> ContractB \<Rightarrow> path \<Rightarrow> path \<Rightarrow> string \<Rightarrow> path \<Rightarrow> path io" where
  "render_mix env contract_b song_a_path song_b_path session_id work_dir =
     io_finally
       (io_catch (primary_render env contract_b song_a_path song_b_path session_id work_dir)
          (\<lambda>e. True)
          (simplified_render env song_a_path song_b_path contract_b session_id work_dir))
       (Rmtree work_dir)"

subsection \<open>The fallback render in the specification's words\<close>

text \<open>
  The fallback converts both songs, takes song A whole and song B from its in-point
  (the whole of song B when the in-point is not positive), crossfades the two with the
  triangular, that is linear, curve over the plan's total duration, and normalizes and
  encodes the result. No command for EQ, tempo, pitch or SFX occurs.
\<close>

definition fallback_commands ::
  "environment \<Rightarrow> path \<Rightarrow> path \<Rightarrow> ContractB \<Rightarrow> string \<Rightarrow> path \<Rightarrow> command list" where
  "fallback_commands env song_a_path song_b_path contract_b session_id work_dir =
     (let md = mix_decision contract_b;
          in_point = py_or (in_point_ms (MixDecision.song_b md)) 0;
          simple_a = path_join work_dir ''simple_a.wav'';
          simple_b = path_join work_dir ''simple_b.wav'';
          simple_b_seg = path_join work_dir ''simple_b_seg.wav'';
          crossfaded = path_join work_dir ''simple_crossfaded.wav''
      in [ensure_wav_command env song_a_path simple_a,
          ensure_wav_command env song_b_path simple_b]
         @ (if in_point > 0
            then [Ffmpeg_extract simple_b (py_round (in_point / 1000) 3) None simple_b_seg]
            else [])
         @ [Ffmpeg_acrossfade simple_a (if in_point > 0 then simple_b_seg else simple_b)
              (py_round (total_duration_ms (transition md) / 1000) 3) ''tri'' crossfaded,
            Ffmpeg_loudnorm_mp3 crossfaded (output_mp3 env session_id)])"

subsection \<open>A concrete plan and two environments\<close>

text \<open>
  A bass-swap plan with out point 180000 ms, in-point 15000 ms, a transition of
  15360 ms and a given stretch factor for song A; an environment in which every
  command succeeds, and one in which the EQ filter command fails.
\<close>

definition example_plan :: "real \<Rightarrow> ContractB" where
  "example_plan stretch_a =
     \<lparr>mix_decision =
        \<lparr>strategy = ''bass_swap'', confidence = 1 / 2, reasoning = [],
         MixDecision.song_a =
           SongMixPoint_defaults
             \<lparr>out_point_ms := Some 180000, fade_start_ms := Some 180000,
              tempo_stretch_factor := stretch_a\<rparr>,
         MixDecision.song_b =
           SongMixPoint_defaults \<lparr>in_point_ms := Some 15000, fade_end_ms := Some 30360\<rparr>,
         transition =
           \<lparr>total_duration_ms = 15360, crossfade_curve = ''linear'',
            eq_automation = bass_swap_eq 180000 15360\<rparr>,
         sfx = SFXConfig_defaults,
         suggestion = None\<rparr>\<rparr>"

definition env_ok :: environment where
  "env_ok =
     \<lparr>run = (\<lambda>c. None), sfx_lookup = (\<lambda>cfg d. Inr None), is_wav = (\<lambda>p. False),
      OUTPUT_DIR = ''outputs''\<rparr>"

definition env_eq_fails :: environment where
  "env_eq_fails =
     env_ok \<lparr>run := (\<lambda>c. case c of Ffmpeg_af i fs out \<Rightarrow> Some CalledProcessError | _ \<Rightarrow> None)\<rparr>"

section \<open>Properties of the Camelot wheel\<close>

lemmas py_int_defs =
  py_int_def strip_def py_unsigned_def is_digit_def is_space_def digit_val_def

lemma wheel_numbers_iff: "n \<in> set wheel_numbers \<longleftrightarrow> 1 \<le> n \<and> n \<le> 12"
  unfolding wheel_numbers_def by (simp only: set_simps insert_iff empty_iff) arith

lemma py_int_wheel_numbers: "\<forall>n \<in> set wheel_numbers. py_int (show_num n) = Inr (int n)"
  by (simp add: wheel_numbers_def show_num_def digit_char_def py_int_defs)

lemma py_int_show_num:
  assumes "1 \<le> n" and "n \<le> 12"
  shows "py_int (show_num n) = Inr (int n)"
proof -
  from assms have "n \<in> set wheel_numbers"
    by (simp only: wheel_numbers_iff)
  with py_int_wheel_numbers show ?thesis
    by blast
qed

lemma split_code_label:
  assumes "1 \<le> n" and "n \<le> 12"
  shows "split_code (label (Code n r)) = Inr (int n, ring_letter r)"
  using py_int_show_num [OF assms] by (simp add: split_code_def show_num_def)

lemma label_Code_not_sentinel: "label (Code n r) \<noteq> ''?''"
  by (cases r) (simp_all add: show_num_def)

lemma ring_letter_inj: "ring_letter r = ring_letter r' \<longleftrightarrow> r = r'"
  by (cases r; cases r') simp_all

text \<open>
  The codes that occur in \<open>KEY_TO_CAMELOT\<close> are exactly the labels of the 24 wheel codes.
\<close>

lemma table_codes_are_labels:
  "set (map snd KEY_TO_CAMELOT) =
     set (map (\<lambda>n. label (Code n RingA)) wheel_numbers) \<union>
     set (map (\<lambda>n. label (Code n RingB)) wheel_numbers)"
  by (auto simp: KEY_TO_CAMELOT_def wheel_numbers_def show_num_def digit_char_def)

lemma camelot_distance_labels:
  assumes n: "1 \<le> n" "n \<le> 12" and m: "1 \<le> m" "m \<le> 12"
  shows "camelot_distance (label (Code n r)) (label (Code m r')) =
           (if r = r' then circular_distance n m
            else if n = m then 0 else circular_distance n m + 1)"
  unfolding camelot_distance_def
  by (simp only: label_Code_not_sentinel split_code_label [OF n] split_code_label [OF m]
        ring_letter_inj circular_distance_def Let_def sum.case prod.case if_False simp_thms
        of_nat_eq_iff)

text \<open>
  On the 24 wheel codes the distance lies between 0 and 7, and the sentinel \<open>-1\<close> is not
  returned.
\<close>

lemma camelot_distance_labels_range:
  assumes "1 \<le> n" "n \<le> 12" "1 \<le> m" "m \<le> 12"
  shows "0 \<le> camelot_distance (label (Code n r)) (label (Code m r')) \<and>
         camelot_distance (label (Code n r)) (label (Code m r')) \<le> 7"
  unfolding camelot_distance_labels [OF assms] using assms
  by (auto simp: circular_distance_def)

text \<open>
  Claim C1. For every pair of recognized wheel codes \<open>camelot_distance\<close> is said to lie
  in 0..6, which is also the range its docstring gives. The codes \<open>1A\<close> and \<open>7B\<close> are
  both in the table, they lie on different rings six positions apart, and the function
  returns 7.
\<close>

theorem camelot_distance_1A_7B:
  "''1A'' \<in> set (map snd KEY_TO_CAMELOT) \<and> ''7B'' \<in> set (map snd KEY_TO_CAMELOT) \<and>
   camelot_distance ''1A'' ''7B'' = 7"
  by (simp add: KEY_TO_CAMELOT_def camelot_distance_def split_code_def py_int_defs)

text \<open>
  The shift returned by \<open>pitch_shift_to_match\<close> is never below \<open>-5\<close> and never above 6,
  for any two strings.
\<close>

lemma pitch_shift_to_match_range:
  "- 5 \<le> pitch_shift_to_match cam_source cam_target \<and>
   pitch_shift_to_match cam_source cam_target \<le> 6"
proof -
  have "- 5 \<le> (if d mod 12 > 6 then d mod 12 - 12 else d mod 12) \<and>
        (if d mod 12 > 6 then d mod 12 - 12 else d mod 12) \<le> 6" for d :: int
    by presburger
  then show ?thesis
    by (simp add: pitch_shift_to_match_def Let_def split: option.split)
qed

text \<open>
  Claim C2. When the two circular directions tie at exactly 6 semitones the downward
  shift \<open>-6\<close> is said to be chosen. From \<open>8B\<close> (pitch class 0) to \<open>2B\<close> (pitch class 6)
  the wheel distance is 6, the difference modulo 12 is 6, the test \<open>diff > 6\<close> does not
  fire, and the function returns \<open>+6\<close>.
\<close>

theorem pitch_shift_to_match_tie_8B_2B:
  "camelot_distance ''8B'' ''2B'' = 6 \<and> pitch_shift_to_match ''8B'' ''2B'' = 6"
  by (simp add: pitch_shift_to_match_def CAMELOT_TO_PITCH_def camelot_distance_def
      split_code_def py_int_defs)

text \<open>
  Claim C3, as stated: \<open>camelot_distance "8A" "8B" = 0\<close>, and \<open>camelot_distance "8A" "10A"\<close>
  equals the circular number distance plus 1. The second part fails: \<open>8A\<close> and \<open>10A\<close> lie
  on the same ring, so no ring-crossing step is added.
\<close>

theorem camelot_distance_8A_10A_counterexample:
  "\<not> (camelot_distance ''8A'' ''8B'' = 0 \<and>
      camelot_distance ''8A'' ''10A'' = min (abs (8 - 10)) (12 - abs (8 - 10)) + 1)"
  by (simp add: camelot_distance_def split_code_def py_int_defs)

text \<open>
  Claim C3, amended: \<open>camelot_distance "8A" "8B" = 0\<close>; \<open>8A\<close> and \<open>10A\<close> are on the same
  ring and their distance is the circular number distance (2); the cross-ring pair
  \<open>8A\<close>, \<open>10B\<close> with unequal numbers has the circular number distance plus 1 (3).
\<close>

theorem camelot_distance_examples:
  "camelot_distance ''8A'' ''8B'' = 0 \<and>
   camelot_distance ''8A'' ''10A'' = min (abs (8 - 10)) (12 - abs (8 - 10)) \<and>
   camelot_distance ''8A'' ''10B'' = min (abs (8 - 10)) (12 - abs (8 - 10)) + 1"
  by (simp add: camelot_distance_def split_code_def py_int_defs)

text \<open>
  Claim C4. For every pair of codes (one of the 24 wheel codes or the unknown sentinel),
  \<open>camelot_distance\<close> on their labels is the distance rule: unknown (\<open>-1\<close>) if either
  code is unknown; the circular number distance on the same ring; 0 across rings with
  equal numbers; the circular number distance plus 1 across rings otherwise.
\<close>

theorem camelot_distance_refines_rule:
  assumes "valid_code a" and "valid_code b"
  shows "camelot_distance (label a) (label b) =
           (case wheelDistance_spec a b of None \<Rightarrow> - 1 | Some d \<Rightarrow> d)"
proof (cases a)
  case Unknown
  then show ?thesis by (simp add: camelot_distance_def)
next
  case A: (Code n r)
  show ?thesis
  proof (cases b)
    case Unknown
    then show ?thesis using A by (simp add: camelot_distance_def)
  next
    case B: (Code m r')
    from assms A B have "1 \<le> n" "n \<le> 12" "1 \<le> m" "m \<le> 12"
      by simp_all
    from camelot_distance_labels [OF this] show ?thesis
      using A B by simp
  qed
qed

theorem camelot_distance_refines_rule_witness:
  "valid_code (Code 8 RingA) \<and> valid_code (Code 10 RingB) \<and> valid_code Unknown \<and>
   camelot_distance ''8A'' ''10B'' = 3 \<and> camelot_distance ''8A'' ''?'' = - 1"
  using camelot_distance_refines_rule [of "Code 8 RingA" "Code 10 RingB"]
    camelot_distance_refines_rule [of "Code 8 RingA" Unknown]
  by (simp add: show_num_def digit_char_def circular_distance_def)


section \<open>Properties of the decision engine\<close>

lemmas py_round_defs = py_round_def round_half_even_def


lemma round_half_even_near: "\<bar>of_int (round_half_even y) - y\<bar> \<le> 1 / 2"
proof -
  have "of_int \<lfloor>y\<rfloor> \<le> y" and "y < of_int \<lfloor>y\<rfloor> + 1"
    by linarith+
  then show ?thesis
    by (auto simp: round_half_even_def Let_def)
qed

lemma py_round_near: "\<bar>py_round x 1 - x\<bar> \<le> 1 / 20"
proof -
  have "\<bar>of_int (round_half_even (x * 10)) - x * 10\<bar> \<le> 1 / 2"
    by (rule round_half_even_near)
  then show ?thesis
    by (simp add: py_round_def abs_le_iff field_simps)
qed

lemma transition_duration_eq:
  assumes "recommended_target_bpm (compatibility c) \<noteq> 0"
  shows "transition_duration c ts =
           Inr (if out_point c ts + 32 * (60000 / recommended_target_bpm (compatibility c))
                     > SongAnalysis.duration_ms (ContractA.song_a c)
                then SongAnalysis.duration_ms (ContractA.song_a c) - out_point c ts
                else 32 * (60000 / recommended_target_bpm (compatibility c)))"
  using assms by (simp add: transition_duration_def py_truediv_def Let_def)

lemma transition_duration_within:
  assumes "transition_duration c ts = Inr d"
  shows "out_point c ts + d \<le> SongAnalysis.duration_ms (ContractA.song_a c)"
  using assms
  by (auto simp: transition_duration_def py_truediv_def Let_def split: if_splits)

lemma stretch_factors_eq:
  assumes "needs_tempo_adjustment (compatibility c) \<longrightarrow>
             bpm (ContractA.song_a c) \<noteq> 0 \<and> bpm (ContractA.song_b c) \<noteq> 0"
  shows "stretch_factors c =
           Inr (if needs_tempo_adjustment (compatibility c)
                then (recommended_target_bpm (compatibility c) / bpm (ContractA.song_a c),
                      recommended_target_bpm (compatibility c) / bpm (ContractA.song_b c))
                else (1, 1))"
  using assms by (simp add: stretch_factors_def py_truediv_def Let_def)

text \<open>
  When the target tempo and, if a stretch is needed, both tempos are non-zero, the mixer
  returns a plan built from the transition duration and the stretch factors.
\<close>

lemma rule_based_mix_returns:
  assumes "transition_duration c ts = Inr d" and "stretch_factors c = Inr (stretch_a, stretch_b)"
  shows "\<exists>plan. rule_based_mix c ts mk ip = Inr plan \<and>
           total_duration_ms (transition (mix_decision plan)) = py_round d 1 \<and>
           out_point_ms (MixDecision.song_a (mix_decision plan)) = Some (py_round (out_point c ts) 1) \<and>
           tempo_stretch_factor (MixDecision.song_a (mix_decision plan)) = py_round stretch_a 4 \<and>
           tempo_stretch_factor (MixDecision.song_b (mix_decision plan)) = py_round stretch_b 4 \<and>
           eq_automation (transition (mix_decision plan)) = bass_swap_eq (out_point c ts) d"
  using assms by (simp add: rule_based_mix_def Let_def)


lemma compute_compatibility_fields:
  "recommended_target_bpm (compute_compatibility sa sb) = py_round ((bpm sa + bpm sb) / 2) 1"
  "needs_tempo_adjustment (compute_compatibility sa sb) = (\<bar>bpm sa - bpm sb\<bar> > 2)"
  "Compatibility.camelot_distance (compute_compatibility sa sb) =
     camelot_distance (camelot sa) (camelot sb)"
  "key_compatible (compute_compatibility sa sb) =
     (if key_confidence sa < 1 / 2 \<or> key_confidence sb < 1 / 2 then PyStr ''unknown''
      else PyBool (camelot_distance (camelot sa) (camelot sb) \<le> 1))"
  by (simp_all add: compute_compatibility_def Let_def)

lemma analyze_pair_fields:
  "ContractA.song_a (analyze_pair sa sb) = sa"
  "ContractA.song_b (analyze_pair sa sb) = sb"
  "compatibility (analyze_pair sa sb) = compute_compatibility sa sb"
  by (simp_all add: analyze_pair_def)

lemma example_song_fields:
  "SongAnalysis.duration_ms (example_song dur tempo code ds) = dur"
  "bpm (example_song dur tempo code ds) = tempo"
  "camelot (example_song dur tempo code ds) = code"
  "downbeats_ms (example_song dur tempo code ds) = ds"
  "key_confidence (example_song dur tempo code ds) = 8 / 10"
  "phrases (example_song dur tempo code ds) = []"
  by (simp_all add: example_song_def)

lemma rule_based_mix_cases:
  assumes "transition_duration c ts = Inr d"
    and "stretch_factors c = Inr (stretch_a, stretch_b)"
    and "\<And>plan.
          total_duration_ms (transition (mix_decision plan)) = py_round d 1 \<Longrightarrow>
          out_point_ms (MixDecision.song_a (mix_decision plan)) = Some (py_round (out_point c ts) 1) \<Longrightarrow>
          tempo_stretch_factor (MixDecision.song_a (mix_decision plan)) = py_round stretch_a 4 \<Longrightarrow>
          tempo_stretch_factor (MixDecision.song_b (mix_decision plan)) = py_round stretch_b 4 \<Longrightarrow>
          eq_automation (transition (mix_decision plan)) = bass_swap_eq (out_point c ts) d \<Longrightarrow>
          P plan"
  shows "case rule_based_mix c ts mk ip of Inl e \<Rightarrow> False | Inr plan \<Rightarrow> P plan"
proof -
  from rule_based_mix_returns [OF assms(1,2), of mk ip]
  obtain plan where "rule_based_mix c ts mk ip = Inr plan" and "P plan"
    using assms(3) by blast
  then show ?thesis by simp
qed




text \<open>
  Whatever the rounding of the emitted fields does, they exceed song A's duration by
  at most a tenth of a millisecond.
\<close>

lemma emitted_window_bound:
  assumes "transition_duration c ts = Inr d"
  shows "py_round (out_point c ts) 1 + py_round d 1
           \<le> SongAnalysis.duration_ms (ContractA.song_a c) + 1 / 10"
proof -
  have "py_round (out_point c ts) 1 \<le> out_point c ts + 1 / 20"
    and "py_round d 1 \<le> d + 1 / 20"
    using py_round_near [of "out_point c ts"] py_round_near [of d] by linarith+
  with transition_duration_within [OF assms] show ?thesis
    by linarith
qed

text \<open>
  Claim C6, as stated: the emitted plan always satisfies
  \<open>out_point + total_duration \<le> duration\<close> of song A. Take a song A of 240000.14 ms with
  downbeats at 0, 120000 and 239950.07 ms and a target of 120 BPM. The out point is the
  downbeat 239950.07, the 16000 ms window is cut to the remaining 50.07 ms, and the plan
  carries both values rounded to one decimal: 239950.1 and 50.1, whose sum 240000.2
  exceeds the duration.
\<close>

theorem emitted_window_counterexample:
  "list_all (\<lambda>d. 0 \<le> d \<and> d \<le> 24000014 / 100) [0, 120000, 23995007 / 100 :: real] \<and>
   recommended_target_bpm (compute_compatibility
      (example_song (24000014 / 100) 120 ''8A'' [0, 120000, 23995007 / 100])
      (example_song 200000 120 ''9A'' [0])) = 120 \<and>
   (case rule_based_mix
           (analyze_pair (example_song (24000014 / 100) 120 ''8A'' [0, 120000, 23995007 / 100])
              (example_song 200000 120 ''9A'' [0])) None False None of
      Inl e \<Rightarrow> False
    | Inr plan \<Rightarrow>
        out_point_ms (MixDecision.song_a (mix_decision plan)) = Some (2399501 / 10) \<and>
        total_duration_ms (transition (mix_decision plan)) = 501 / 10 \<and>
        2399501 / 10 + 501 / 10 > (24000014 / 100 :: real))"
proof -
  let ?c = "analyze_pair (example_song (24000014 / 100) 120 ''8A'' [0, 120000, 23995007 / 100])
              (example_song 200000 120 ''9A'' [0])"
  have t: "recommended_target_bpm (compatibility ?c) = 120"
    by (simp add: analyze_pair_fields compute_compatibility_fields example_song_fields
        py_round_defs)
  have n: "\<not> needs_tempo_adjustment (compatibility ?c)"
    by (simp add: analyze_pair_fields compute_compatibility_fields example_song_fields)
  have out: "out_point ?c None = 23995007 / 100"
    by (simp add: out_point_def nearest_downbeat_def analyze_pair_fields example_song_fields)
  have td: "transition_duration ?c None = Inr (5007 / 100)"
    unfolding transition_duration_def Let_def t out
    by (simp add: py_truediv_def analyze_pair_fields(1,2) example_song_fields)
  have sf: "stretch_factors ?c = Inr (1, 1)"
    using n by (simp add: stretch_factors_def)
  have r1: "py_round (23995007 / 100) 1 = 2399501 / 10"
    by (simp add: py_round_defs)
  have r2: "py_round (5007 / 100) 1 = 501 / 10"
    by (simp add: py_round_defs)
  have "case rule_based_mix ?c None False None of
          Inl e \<Rightarrow> False
        | Inr plan \<Rightarrow>
            out_point_ms (MixDecision.song_a (mix_decision plan)) = Some (2399501 / 10) \<and>
            total_duration_ms (transition (mix_decision plan)) = 501 / 10 \<and>
            2399501 / 10 + 501 / 10 > (24000014 / 100 :: real)"
  proof (rule rule_based_mix_cases [OF td sf])
    fix plan :: ContractB
    assume "total_duration_ms (transition (mix_decision plan)) = py_round (5007 / 100) 1"
      and "out_point_ms (MixDecision.song_a (mix_decision plan)) =
             Some (py_round (out_point ?c None) 1)"
    then show "out_point_ms (MixDecision.song_a (mix_decision plan)) = Some (2399501 / 10) \<and>
        total_duration_ms (transition (mix_decision plan)) = 501 / 10 \<and>
        2399501 / 10 + 501 / 10 > (24000014 / 100 :: real)"
      unfolding out r1 r2 by simp
  qed
  moreover have "recommended_target_bpm (compute_compatibility
      (example_song (24000014 / 100) 120 ''8A'' [0, 120000, 23995007 / 100])
      (example_song 200000 120 ''9A'' [0])) = 120"
    using t unfolding analyze_pair_fields .
  moreover have "list_all (\<lambda>d. 0 \<le> d \<and> d \<le> 24000014 / 100) [0, 120000, 23995007 / 100 :: real]"
    by simp
  ultimately show ?thesis
    by blast
qed

text \<open>
  Claim C6, amended. For every input pair with a positive target BPM and positive
  tempos the mixer returns a plan. The transition duration it computes is 32 beats at
  the target BPM in milliseconds, replaced by song A's duration minus the out point
  when the out point plus that value exceeds song A's duration; so the computed out
  point plus the computed transition duration never exceeds song A's duration. The
  plan carries the out point and the transition duration each rounded to one decimal
  place.
\<close>

theorem transition_duration_clamped:
  assumes "0 < recommended_target_bpm (compatibility c)"
    and "0 < bpm (ContractA.song_a c)" and "0 < bpm (ContractA.song_b c)"
  shows "case rule_based_mix c ts mk ip of
           Inl e \<Rightarrow> False
         | Inr plan \<Rightarrow>
             (let out = out_point c ts;
                  full = 32 * (60000 / recommended_target_bpm (compatibility c));
                  dur = SongAnalysis.duration_ms (ContractA.song_a c);
                  d = (if out + full > dur then dur - out else full)
              in transition_duration c ts = Inr d \<and>
                 out + d \<le> dur \<and>
                 total_duration_ms (transition (mix_decision plan)) = py_round d 1 \<and>
                 out_point_ms (MixDecision.song_a (mix_decision plan)) = Some (py_round out 1))"
proof -
  have t: "recommended_target_bpm (compatibility c) \<noteq> 0"
    using assms(1) by simp
  have s: "needs_tempo_adjustment (compatibility c) \<longrightarrow>
             bpm (ContractA.song_a c) \<noteq> 0 \<and> bpm (ContractA.song_b c) \<noteq> 0"
    using assms(2,3) by simp
  obtain stretch_a stretch_b where sf: "stretch_factors c = Inr (stretch_a, stretch_b)"
    using stretch_factors_eq [OF s] by (cases "needs_tempo_adjustment (compatibility c)") simp_all
  note td = transition_duration_eq [OF t, of ts]
  show ?thesis
    using transition_duration_within [OF td]
    by (intro rule_based_mix_cases [OF td sf]) (simp add: Let_def td)
qed

theorem transition_duration_clamped_witness:
  "0 < recommended_target_bpm (compatibility
      (analyze_pair (example_song 240000 128 ''8A'' [0, 1875]) (example_song 200000 122 ''9A'' [0]))) \<and>
   0 < bpm (example_song 240000 128 ''8A'' [0, 1875]) \<and>
   0 < bpm (example_song 200000 122 ''9A'' [0]) \<and>
   (case rule_based_mix
           (analyze_pair (example_song 240000 128 ''8A'' [0, 1875])
              (example_song 200000 122 ''9A'' [0])) None False None of
      Inl e \<Rightarrow> False
    | Inr plan \<Rightarrow>
        total_duration_ms (transition (mix_decision plan)) = 15360 \<and>
        out_point_ms (MixDecision.song_a (mix_decision plan)) = Some 1875)"
proof -
  let ?a = "example_song 240000 128 ''8A'' [0, 1875]"
  let ?b = "example_song 200000 122 ''9A'' [0]"
  have t: "recommended_target_bpm (compatibility (analyze_pair ?a ?b)) = 125"
    by (simp add: analyze_pair_fields compute_compatibility_fields example_song_fields
        py_round_defs)
  have out: "out_point (analyze_pair ?a ?b) None = 1875"
    by (simp add: out_point_def nearest_downbeat_def analyze_pair_fields example_song_fields)
  have h: "0 < recommended_target_bpm (compatibility (analyze_pair ?a ?b))"
    "0 < bpm (ContractA.song_a (analyze_pair ?a ?b))"
    "0 < bpm (ContractA.song_b (analyze_pair ?a ?b))"
    by (simp_all add: t analyze_pair_fields(1,2) example_song_fields)
  from transition_duration_clamped [OF h, of None False None] h show ?thesis
    by (simp add: Let_def t out analyze_pair_fields(1,2) example_song_fields py_round_defs
        split: sum.splits)
qed

text \<open>
  Claim C7. For every input pair with a positive target BPM and positive tempos the
  mixer returns a plan whose EQ automation has one entry for song A's bass: a cut,
  linear from 0 dB to -24 dB, from the out point to the out point plus half the
  transition duration; one entry for song B's bass: a boost, linear from -24 dB to
  0 dB, from half the transition duration to the whole of it; and no entry for mids
  or highs. The out point and the transition duration are the values the mixer
  computes, of which the plan's own fields are the roundings to one decimal place.
\<close>

theorem bass_swap_eq_automation:
  assumes "0 < recommended_target_bpm (compatibility c)"
    and "0 < bpm (ContractA.song_a c)" and "0 < bpm (ContractA.song_b c)"
  shows "case rule_based_mix c ts mk ip of
           Inl e \<Rightarrow> False
         | Inr plan \<Rightarrow>
             (case transition_duration c ts of
                Inl e \<Rightarrow> False
              | Inr d \<Rightarrow>
                  (let eq = eq_automation (transition (mix_decision plan));
                       out = out_point c ts
                   in song_a_bass eq =
                        Some \<lparr>action = ''cut'', start_ms = out, end_ms = out + d / 2,
                              from_db = 0, to_db = - 24, curve = ''linear''\<rparr> \<and>
                      song_b_bass eq =
                        Some \<lparr>action = ''boost'', start_ms = d / 2, end_ms = d,
                              from_db = - 24, to_db = 0, curve = ''linear''\<rparr> \<and>
                      song_a_highs eq = None \<and> song_b_highs eq = None \<and>
                      song_a_mids eq = None \<and> song_b_mids eq = None \<and>
                      total_duration_ms (transition (mix_decision plan)) = py_round d 1 \<and>
                      out_point_ms (MixDecision.song_a (mix_decision plan))
                        = Some (py_round out 1)))"
proof -
  have t: "recommended_target_bpm (compatibility c) \<noteq> 0"
    using assms(1) by simp
  have s: "needs_tempo_adjustment (compatibility c) \<longrightarrow>
             bpm (ContractA.song_a c) \<noteq> 0 \<and> bpm (ContractA.song_b c) \<noteq> 0"
    using assms(2,3) by simp
  obtain stretch_a stretch_b where sf: "stretch_factors c = Inr (stretch_a, stretch_b)"
    using stretch_factors_eq [OF s] by (cases "needs_tempo_adjustment (compatibility c)") simp_all
  obtain d where td: "transition_duration c ts = Inr d"
    using transition_duration_eq [OF t] by simp
  show ?thesis
    by (intro rule_based_mix_cases [OF td sf])
       (simp add: td Let_def bass_swap_eq_def EQAutomation_defaults_def)
qed

theorem bass_swap_eq_automation_witness:
  "0 < recommended_target_bpm (compatibility
      (analyze_pair (example_song 240000 128 ''8A'' [0, 1875]) (example_song 200000 122 ''9A'' [0]))) \<and>
   0 < bpm (example_song 240000 128 ''8A'' [0, 1875]) \<and>
   0 < bpm (example_song 200000 122 ''9A'' [0]) \<and>
   (case rule_based_mix
           (analyze_pair (example_song 240000 128 ''8A'' [0, 1875])
              (example_song 200000 122 ''9A'' [0])) None False None of
      Inl e \<Rightarrow> False
    | Inr plan \<Rightarrow>
        song_a_bass (eq_automation (transition (mix_decision plan))) =
          Some \<lparr>action = ''cut'', start_ms = 1875, end_ms = 9555,
                from_db = 0, to_db = - 24, curve = ''linear''\<rparr> \<and>
        song_b_bass (eq_automation (transition (mix_decision plan))) =
          Some \<lparr>action = ''boost'', start_ms = 7680, end_ms = 15360,
                from_db = - 24, to_db = 0, curve = ''linear''\<rparr>)"
proof -
  let ?a = "example_song 240000 128 ''8A'' [0, 1875]"
  let ?b = "example_song 200000 122 ''9A'' [0]"
  have t: "recommended_target_bpm (compatibility (analyze_pair ?a ?b)) = 125"
    by (simp add: analyze_pair_fields compute_compatibility_fields example_song_fields
        py_round_defs)
  have out: "out_point (analyze_pair ?a ?b) None = 1875"
    by (simp add: out_point_def nearest_downbeat_def analyze_pair_fields example_song_fields)
  have td: "transition_duration (analyze_pair ?a ?b) None = Inr 15360"
    by (simp add: transition_duration_def py_truediv_def Let_def t out analyze_pair_fields(1,2)
        example_song_fields)
  have h: "0 < recommended_target_bpm (compatibility (analyze_pair ?a ?b))"
    "0 < bpm (ContractA.song_a (analyze_pair ?a ?b))"
    "0 < bpm (ContractA.song_b (analyze_pair ?a ?b))"
    by (simp_all add: t analyze_pair_fields(1,2) example_song_fields)
  from bass_swap_eq_automation [OF h, of None False None] h show ?thesis
    by (simp add: Let_def td out analyze_pair_fields(1,2) example_song_fields
        split: sum.splits)
qed

lemma key_to_camelot_unrecognized:
  "map_of KEY_TO_CAMELOT k = None \<Longrightarrow> key_to_camelot k = ''?''"
  by (simp add: key_to_camelot_def)

text \<open>
  Claim C10. When both key confidences are at least 0.5 and either song's Camelot code
  is the sentinel \<open>?\<close> that an unrecognized key gets, the wheel distance reported by
  \<open>compute_compatibility\<close> is \<open>-1\<close> and the key verdict is the boolean \<open>True\<close>.
\<close>

theorem unrecognized_key_is_compatible:
  assumes "1 / 2 \<le> key_confidence sa" and "1 / 2 \<le> key_confidence sb"
    and "camelot sa = ''?'' \<or> camelot sb = ''?''"
  shows "Compatibility.camelot_distance (compute_compatibility sa sb) = - 1 \<and>
         key_compatible (compute_compatibility sa sb) = PyBool True"
proof -
  from assms(3) have "camelot_distance (camelot sa) (camelot sb) = - 1"
    by (auto simp: camelot_distance_def)
  with assms(1,2) show ?thesis
    by (simp add: compute_compatibility_fields not_less [symmetric])
qed

theorem unrecognized_key_is_compatible_witness:
  "key_to_camelot ''X#dim7'' = ''?'' \<and>
   1 / 2 \<le> key_confidence (example_song 240000 128 (key_to_camelot ''X#dim7'') [0]) \<and>
   1 / 2 \<le> key_confidence (example_song 200000 122 ''9A'' [0]) \<and>
   key_compatible (compute_compatibility
      (example_song 240000 128 (key_to_camelot ''X#dim7'') [0])
      (example_song 200000 122 ''9A'' [0])) = PyBool True"
proof -
  have k: "key_to_camelot ''X#dim7'' = ''?''"
    by (simp add: key_to_camelot_def KEY_TO_CAMELOT_def)
  have h: "1 / 2 \<le> key_confidence (example_song 240000 128 ''?'' [0])"
    "1 / 2 \<le> key_confidence (example_song 200000 122 ''9A'' [0])"
    "camelot (example_song 240000 128 ''?'' [0]) = ''?'' \<or>
     camelot (example_song 200000 122 ''9A'' [0]) = ''?''"
    by (simp_all add: example_song_fields)
  from unrecognized_key_is_compatible [OF h] h(1,2) show ?thesis
    by (simp add: k)
qed


section \<open>Properties of the renderer\<close>


lemma run_command_Some: "run env c = Some e \<Longrightarrow> run_command env c r = (Raised e, [c])"
  by (simp add: run_command_def)


lemma io_bind_Raised: "io_bind (Raised e, t) f = (Raised e, t)"
  by (simp add: io_bind_def)

lemma io_bind_Diverged: "io_bind (Diverged, t) f = (Diverged, t)"
  by (simp add: io_bind_def)

text \<open>
  The fallback issues a prefix of the commands of \<open>fallback_commands\<close>; it returns
  exactly when none of them raises, and then it has issued all of them and returns the
  MP3 path.
\<close>

lemma simplified_render_prefix:
  "prefix (snd (simplified_render env a b cb sid wd)) (fallback_commands env a b cb sid wd)"
  by (simp add: simplified_render_def fallback_commands_def Let_def io_bind_def
      run_command_def ensure_wav_def extract_segment_def io_return_def
      split: option.split)

lemma simplified_render_Returned:
  assumes "fst (simplified_render env a b cb sid wd) = Returned p"
  shows "p = output_mp3 env sid \<and>
         snd (simplified_render env a b cb sid wd) = fallback_commands env a b cb sid wd"
  using assms
  by (simp add: simplified_render_def fallback_commands_def Let_def io_bind_def
      run_command_def ensure_wav_def extract_segment_def io_return_def
      split: option.split_asm if_split_asm)

lemma simplified_render_succeeds:
  assumes "\<forall>c \<in> set (fallback_commands env a b cb sid wd). run env c = None"
  shows "fst (simplified_render env a b cb sid wd) = Returned (output_mp3 env sid)"
  using assms
  by (cases "0 < py_or (in_point_ms (MixDecision.song_b (mix_decision cb))) 0")
     (simp_all add: simplified_render_def fallback_commands_def Let_def io_bind_def
        run_command_def ensure_wav_def extract_segment_def io_return_def)


lemmas render_defs =
  primary_render_def simplified_render_def render_mix_def io_bind_def io_catch_def
  io_finally_def io_return_def io_raise_def run_command_def ensure_wav_def
  ensure_wav_command_def extract_segment_def apply_eq_automation_def eq_filters_def
  eq_entry_def eq_filter_for_band_def crossfade_def normalize_and_export_def
  seg_a_end_ms_def orig_trans_dur_a_def fade_start_def crossfade_start_in_a_def
  output_mp3_def output_wav_def path_join_def py_or_def

text \<open>
  For a positive factor both \<open>atempo\<close> loops end, so \<open>_time_stretch\<close> returns or raises.
\<close>

lemma atempo_halving_returns:
  "\<exists>v' chain'. atempo_halving v chain = Some (v', chain') \<and> (0 < v \<longrightarrow> 0 < v')"
proof (induction "nat \<lceil>v\<rceil>" arbitrary: v chain rule: less_induct)
  case less
  show ?case
  proof (cases "v > 2")
    case True
    then have "nat \<lceil>v / 2\<rceil> < nat \<lceil>v\<rceil>"
      by linarith
    from less [OF this, of "chain @ [2]"] True show ?thesis
      by (subst atempo_halving.simps) simp
  next
    case False
    then show ?thesis
      by (subst atempo_halving.simps) simp
  qed
qed

lemma atempo_doubling_returns_aux:
  "1 / 2 \<le> v * 2 ^ n \<Longrightarrow> \<exists>r. atempo_doubling v chain = Some r"
proof (induction n arbitrary: v chain)
  case 0
  then show ?case
    by (subst atempo_doubling.simps) simp
next
  case (Suc n)
  show ?case
  proof (cases "v < 1 / 2")
    case True
    from Suc.prems have "1 / 2 \<le> (v * 2) * 2 ^ n"
      by (simp add: mult.assoc)
    from Suc.IH [OF this, of "chain @ [1 / 2]"] True show ?thesis
      by (subst atempo_doubling.simps) simp
  next
    case False
    then show ?thesis
      by (subst atempo_doubling.simps) simp
  qed
qed

lemma atempo_doubling_returns:
  assumes "0 < v"
  shows "\<exists>r. atempo_doubling v chain = Some r"
proof -
  obtain n where "1 / (2 * v) < 2 ^ n"
    using real_arch_pow [of 2 "1 / (2 * v)"] by auto
  with assms have "1 / 2 \<le> v * 2 ^ n"
    by (simp add: field_simps)
  then show ?thesis
    by (rule atempo_doubling_returns_aux)
qed

lemma atempo_chain_returns:
  assumes "0 < factor"
  shows "\<exists>chain. atempo_chain factor = Some chain"
proof -
  obtain v chain where h: "atempo_halving factor [] = Some (v, chain)" and "0 < v"
    using atempo_halving_returns [of factor "[]"] assms by blast
  then obtain r where "atempo_doubling v chain = Some r"
    using atempo_doubling_returns by blast
  with h show ?thesis
    by (cases r) (simp add: atempo_chain_def)
qed

lemma time_stretch_ends:
  assumes "0 < factor"
  shows "fst (time_stretch env input_wav factor output_path) \<noteq> Diverged"
proof -
  obtain chain where "atempo_chain factor = Some chain"
    using atempo_chain_returns [OF assms] by blast
  with assms show ?thesis
    by (simp add: time_stretch_def rb_time_ratio_def py_truediv_def io_catch_def
        run_command_def split: option.split)
qed

text \<open>Evaluation at the concrete plan.\<close>

lemma primary_eq_fails:
  "fst (primary_render env_eq_fails (example_plan (9766 / 10000)) ''a.mp3'' ''b.mp3'' ''s1'' ''tmp'')
     = Raised CalledProcessError"
  by (simp add: render_defs env_eq_fails_def env_ok_def example_plan_def bass_swap_eq_def
      EQAutomation_defaults_def SongMixPoint_defaults_def SFXConfig_defaults_def
      Let_def)

lemma fallback_eq_fails:
  "fst (simplified_render env_eq_fails ''a.mp3'' ''b.mp3'' (example_plan (9766 / 10000)) ''s1'' ''tmp'')
     = Returned ''outputs/s1_mix.mp3''"
  by (simp add: render_defs env_eq_fails_def env_ok_def example_plan_def
      SongMixPoint_defaults_def Let_def)


lemma primary_ok:
  "fst (primary_render env_ok (example_plan (9766 / 10000)) ''a.mp3'' ''b.mp3'' ''s1'' ''tmp'')
     = Returned ''outputs/s1_mix.mp3''"
  by (simp add: render_defs env_ok_def example_plan_def bass_swap_eq_def
      EQAutomation_defaults_def SongMixPoint_defaults_def SFXConfig_defaults_def
      time_stretch_def rb_time_ratio_def py_truediv_def Let_def)

text \<open>
  Claim C8. \<open>render_mix\<close> returns the primary path's artifact when the primary path
  returns. When any stage of the primary path raises, the result of \<open>render_mix\<close> is the
  result of the fallback render, run after the commands of the primary path. So
  \<open>render_mix\<close> raises only when the primary path raised and the fallback raised too,
  and it returns only what one of the two returned. The fallback issues a prefix of the
  commands \<open>fallback_commands\<close>: conversion of both songs, extraction of song B from its
  in-point, a crossfade with the linear curve over the plan's total duration, and
  normalization with encoding; it returns the MP3 path exactly when all of them succeed.
\<close>

theorem render_mix_fallback_policy:
  "let P = primary_render env cb a b sid wd;
       F = simplified_render env a b cb sid wd;
       R = render_mix env cb a b sid wd
   in (\<forall>p. fst P = Returned p \<longrightarrow> R = (Returned p, snd P @ [Rmtree wd])) \<and>
      (\<forall>e. fst P = Raised e \<longrightarrow> R = (fst F, snd P @ snd F @ [Rmtree wd])) \<and>
      (\<forall>e. fst R = Raised e \<longrightarrow> (\<exists>e'. fst P = Raised e') \<and> fst F = Raised e) \<and>
      (\<forall>p. fst R = Returned p \<longrightarrow>
         fst P = Returned p \<or> (\<exists>e. fst P = Raised e) \<and> fst F = Returned p) \<and>
      prefix (snd F) (fallback_commands env a b cb sid wd) \<and>
      (\<forall>p. fst F = Returned p \<longrightarrow>
         p = output_mp3 env sid \<and> snd F = fallback_commands env a b cb sid wd) \<and>
      ((\<forall>c \<in> set (fallback_commands env a b cb sid wd). run env c = None) \<longrightarrow>
         fst F = Returned (output_mp3 env sid))"
proof -
  obtain r t where P: "primary_render env cb a b sid wd = (r, t)"
    by (cases "primary_render env cb a b sid wd")
  obtain r' t' where F: "simplified_render env a b cb sid wd = (r', t')"
    by (cases "simplified_render env a b cb sid wd")
  have R: "render_mix env cb a b sid wd =
      (case r of
         Returned p \<Rightarrow> (Returned p, t @ [Rmtree wd])
       | Raised e \<Rightarrow> (case r' of Diverged \<Rightarrow> (Diverged, t @ t') | _ \<Rightarrow> (r', t @ t' @ [Rmtree wd]))
       | Diverged \<Rightarrow> (Diverged, t))"
    by (simp add: render_mix_def io_finally_def io_catch_def P F
        split: outcome.split)
  have nd: "r' \<noteq> Diverged"
  proof
    assume "r' = Diverged"
    with F have "fst (simplified_render env a b cb sid wd) = Diverged" by simp
    then show False
      by (simp add: simplified_render_def Let_def io_bind_def run_command_def ensure_wav_def
          extract_segment_def io_return_def split: option.split_asm if_split_asm)
  qed
  have "\<forall>p. r = Returned p \<longrightarrow> render_mix env cb a b sid wd = (Returned p, t @ [Rmtree wd])"
    by (simp add: R)
  moreover have "\<forall>e. r = Raised e \<longrightarrow> render_mix env cb a b sid wd = (r', t @ t' @ [Rmtree wd])"
    using nd by (cases r') (simp_all add: R)
  moreover have "\<forall>e. fst (render_mix env cb a b sid wd) = Raised e \<longrightarrow>
      (\<exists>e'. r = Raised e') \<and> r' = Raised e"
    using nd by (cases r; cases r') (simp_all add: R)
  moreover have "\<forall>p. fst (render_mix env cb a b sid wd) = Returned p \<longrightarrow>
      r = Returned p \<or> (\<exists>e. r = Raised e) \<and> r' = Returned p"
    using nd by (cases r; cases r') (simp_all add: R)
  moreover have "\<forall>p. r' = Returned p \<longrightarrow>
      p = output_mp3 env sid \<and> t' = fallback_commands env a b cb sid wd"
    using simplified_render_Returned [of env a b cb sid wd] by (simp add: F)
  moreover have "(\<forall>c \<in> set (fallback_commands env a b cb sid wd). run env c = None) \<longrightarrow>
      r' = Returned (output_mp3 env sid)"
    using simplified_render_succeeds [of env a b cb sid wd] by (simp add: F)
  moreover have "prefix t' (fallback_commands env a b cb sid wd)"
    using simplified_render_prefix [of env a b cb sid wd] by (simp add: F)
  ultimately show ?thesis
    unfolding Let_def P F fst_conv snd_conv by blast
qed

theorem render_mix_fallback_policy_witness:
  "fst (primary_render env_ok (example_plan (9766 / 10000)) ''a.mp3'' ''b.mp3'' ''s1'' ''tmp'')
     = Returned ''outputs/s1_mix.mp3'' \<and>
   fst (render_mix env_ok (example_plan (9766 / 10000)) ''a.mp3'' ''b.mp3'' ''s1'' ''tmp'')
     = Returned ''outputs/s1_mix.mp3'' \<and>
   fst (primary_render env_eq_fails (example_plan (9766 / 10000)) ''a.mp3'' ''b.mp3'' ''s1'' ''tmp'')
     = Raised CalledProcessError \<and>
   list_all (\<lambda>c. run env_eq_fails c = None)
     (fallback_commands env_eq_fails ''a.mp3'' ''b.mp3'' (example_plan (9766 / 10000)) ''s1'' ''tmp'') \<and>
   fst (render_mix env_eq_fails (example_plan (9766 / 10000)) ''a.mp3'' ''b.mp3'' ''s1'' ''tmp'')
     = Returned ''outputs/s1_mix.mp3''"
proof -
  have all_ok: "list_all (\<lambda>c. run env_eq_fails c = None)
     (fallback_commands env_eq_fails ''a.mp3'' ''b.mp3'' (example_plan (9766 / 10000)) ''s1'' ''tmp'')"
    by (simp add: fallback_commands_def env_eq_fails_def env_ok_def ensure_wav_command_def
        example_plan_def SongMixPoint_defaults_def py_or_def Let_def)
  from render_mix_fallback_policy
    [of env_ok "example_plan (9766 / 10000)" "''a.mp3''" "''b.mp3''" "''s1''" "''tmp''"]
    primary_ok
  have "fst (render_mix env_ok (example_plan (9766 / 10000)) ''a.mp3'' ''b.mp3'' ''s1'' ''tmp'')
     = Returned ''outputs/s1_mix.mp3''"
    unfolding Let_def by (metis fst_conv)
  moreover
  from render_mix_fallback_policy
    [of env_eq_fails "example_plan (9766 / 10000)" "''a.mp3''" "''b.mp3''" "''s1''" "''tmp''"]
    primary_eq_fails fallback_eq_fails
  have "fst (render_mix env_eq_fails (example_plan (9766 / 10000)) ''a.mp3'' ''b.mp3'' ''s1'' ''tmp'')
     = Returned ''outputs/s1_mix.mp3''"
    unfolding Let_def by (metis fst_conv)
  ultimately show ?thesis
    using primary_ok primary_eq_fails all_ok by blast
qed




end
